theory Spec2Isabelle
  imports Complex_Main "HOL-Library.Sublist" "HOL-Library.Char_ord" "HOL-Library.List_Lexorder"
begin

section \<open>Python strings as used by \<^verbatim>\<open>nucleus/helpers.py\<close>\<close>

text \<open>
  The repository is Python 2 code; a text is a byte string and is modelled as a
  \<^typ>\<open>string\<close>. Whitespace is what \<^verbatim>\<open>\s\<close> of the \<^verbatim>\<open>re\<close> module and
  \<^verbatim>\<open>str.rstrip()\<close> take for a byte string: space, tab, newline, vertical tab, form feed
  and carriage return.
  A text given as a \<^verbatim>\<open>unicode\<close> object is outside this model: with a character beyond
  ASCII in a tag, \<^verbatim>\<open>"#{}".format(tag)\<close> of \<^verbatim>\<open>find_tags\<close> has to encode it and raises.
\<close>

datatype py_error =
    ValueError            \<comment> \<open>\<^verbatim>\<open>str.index\<close> on a missing substring\<close>
  | AttributeError        \<comment> \<open>\<^verbatim>\<open>current_user.active_persona\<close> of an anonymous user\<close>
  | UnauthorizedError     \<comment> \<open>invalid invitation code\<close>
  | NotImplementedError   \<comment> \<open>the admin cannot leave the movement\<close>
  | ExtractorError        \<comment> \<open>whatever the page extractor raises on a failed fetch\<close>

definition is_space :: "char \<Rightarrow> bool" where
  "is_space c = (c = CHR '' '' \<or> c = CHR 0x09 \<or> c = CHR 0x0A \<or> c = CHR 0x0B
                 \<or> c = CHR 0x0C \<or> c = CHR 0x0D)"

definition non_space :: "char \<Rightarrow> bool" where
  "non_space c = (\<not> is_space c)"

text \<open>\<^verbatim>\<open>\w\<close> without the LOCALE and UNICODE flags: ASCII letters, digits, underscore.\<close>

definition is_word :: "char \<Rightarrow> bool" where
  "is_word c = (let n = of_char c :: nat in
     (48 \<le> n \<and> n \<le> 57) \<or> (65 \<le> n \<and> n \<le> 90) \<or> (97 \<le> n \<and> n \<le> 122) \<or> n = 95)"

text \<open>\<^verbatim>\<open>s.rstrip()\<close>\<close>

definition rstrip :: "string \<Rightarrow> string" where
  "rstrip s = rev (dropWhile is_space (rev s))"

text \<open>\<^verbatim>\<open>s.index(sub)\<close>: the lowest index at which \<open>sub\<close> occurs; \<open>None\<close> stands for the
  \<^verbatim>\<open>ValueError\<close> Python raises when there is no occurrence.\<close>

fun str_index :: "string \<Rightarrow> string \<Rightarrow> nat option" where
  "str_index [] sub = (if sub = [] then Some 0 else None)"
| "str_index (c # cs) sub =
     (if prefix sub (c # cs) then Some 0 else map_option Suc (str_index cs sub))"

text \<open>\<^verbatim>\<open>s.replace(old, new)\<close>: every occurrence, found left to right without overlap.
  \<open>skip\<close> counts the characters of an occurrence that are still to be dropped.\<close>

fun replace_from :: "string \<Rightarrow> string \<Rightarrow> nat \<Rightarrow> string \<Rightarrow> string" where
  "replace_from old new skip [] = []"
| "replace_from old new skip (c # cs) =
     (if 0 < skip then replace_from old new (skip - 1) cs
      else if prefix old (c # cs) then new @ replace_from old new (length old - 1) cs
      else c # replace_from old new 0 cs)"

definition str_replace :: "string \<Rightarrow> string \<Rightarrow> string \<Rightarrow> string" where
  "str_replace s old new =
     (if old = [] then new @ concat (map (\<lambda>c. c # new) s) else replace_from old new 0 s)"

section \<open>The three scanners (\<^verbatim>\<open>re.findall\<close>)\<close>

text \<open>
  \<^verbatim>\<open>re.findall("#([\S]{1,32})", text)\<close>: scanning left to right, a match starts at a
  \<^verbatim>\<open>#\<close> that is followed by a non-whitespace character; the group takes greedily up to 32
  non-whitespace characters; the scan resumes right after the match. (\<^verbatim>\<open>\S\<close> also
  matches \<^verbatim>\<open>#\<close>.)
\<close>

fun findall_tags :: "string \<Rightarrow> string list" where
  "findall_tags [] = []"
| "findall_tags (c # cs) =
     (if c = CHR ''#'' \<and> takeWhile non_space cs \<noteq> []
      then take 32 (takeWhile non_space cs)
             # findall_tags (drop (length (take 32 (takeWhile non_space cs))) cs)
      else findall_tags cs)"

text \<open>\<^verbatim>\<open>re.findall("@([\S]{3,80})", text)\<close>: as above, with at least 3 and at most 80
  characters in the group.\<close>

fun findall_mentions :: "string \<Rightarrow> string list" where
  "findall_mentions [] = []"
| "findall_mentions (c # cs) =
     (if c = CHR ''@'' \<and> 3 \<le> length (takeWhile non_space cs)
      then take 80 (takeWhile non_space cs)
             # findall_mentions (drop (length (take 80 (takeWhile non_space cs))) cs)
      else findall_mentions cs)"

text \<open>
  \<^verbatim>\<open>re.findall("((?:https?://)?\S+\.\w{2,3}\S*)", text)\<close>. Every part of the pattern
  matches non-whitespace only and the pattern ends in a greedy \<^verbatim>\<open>\S*\<close>, so a match
  starting at a character runs to the end of the run of non-whitespace characters it
  stands in. A match starts at a non-whitespace character iff somewhere after it in the
  run there is a dot followed by two word characters (\<^verbatim>\<open>\S+\<close> needs one character
  before the dot; the optional scheme consists of non-whitespace characters, which
  \<^verbatim>\<open>\S+\<close> matches as well, so it changes neither where a match starts nor where it ends).
\<close>

fun dot_suffix :: "string \<Rightarrow> bool" where
  "dot_suffix (c1 # c2 # c3 # cs) =
     ((c1 = CHR ''.'' \<and> is_word c2 \<and> is_word c3) \<or> dot_suffix (c2 # c3 # cs))"
| "dot_suffix cs = False"

fun findall_links :: "string \<Rightarrow> string list" where
  "findall_links [] = []"
| "findall_links (c # cs) =
     (if non_space c \<and> dot_suffix (takeWhile non_space cs)
      then (c # takeWhile non_space cs)
             # findall_links (drop (length (takeWhile non_space cs)) cs)
      else findall_links cs)"

section \<open>\<^verbatim>\<open>find_tags\<close>\<close>

text \<open>The loop \<^verbatim>\<open>for tag in rv\<close> of \<^verbatim>\<open>find_tags\<close>, threading \<^verbatim>\<open>text_new\<close>.\<close>

fun strip_tags :: "string \<Rightarrow> string list \<Rightarrow> py_error + string" where
  "strip_tags text_new [] = Inr text_new"
| "strip_tags text_new (tag # rv) =
     (case str_index text_new tag of
        None \<Rightarrow> Inl ValueError
      | Some i \<Rightarrow>
          strip_tags
            (if i + length tag = length (rstrip text_new)
             then str_replace text_new (CHR ''#'' # tag) []
             else text_new)
            rv)"

definition find_tags :: "string \<Rightarrow> py_error + (string list \<times> string)" where
  "find_tags txt =
     (let rv = rev (findall_tags txt) in
      case strip_tags txt rv of
        Inl e \<Rightarrow> Inl e
      | Inr text_new \<Rightarrow> Inr (if 0 < length text_new then (rv, text_new) else (rv, txt)))"

section \<open>\<^verbatim>\<open>find_mentions\<close>\<close>

text \<open>The identity table is queried by exact username;
  \<open>lookup\<close> is \<^verbatim>\<open>Identity.query.filter_by(username=...).first()\<close>.\<close>

definition find_mentions :: "(string \<Rightarrow> string option) \<Rightarrow> string \<Rightarrow> (string \<times> string) list" where
  "find_mentions lookup txt =
     concat (map (\<lambda>mention_text. case lookup mention_text of
                                     Some ident \<Rightarrow> [(mention_text, ident)]
                                   | None \<Rightarrow> [])
                 (findall_mentions txt))"

section \<open>\<^verbatim>\<open>find_links\<close>\<close>

text \<open>What \<^verbatim>\<open>requests.head(url, timeout=3.0)\<close> gives: a response, or one of the
  exceptions the \<^verbatim>\<open>except\<close> clause names (\<^verbatim>\<open>RequestException\<close>, which covers connection
  errors, timeouts and invalid URLs, or \<^verbatim>\<open>ValueError\<close>). Of the headers only the
  content type is read.\<close>

record response =
  status_code :: nat
  content_type :: "string option"
  url :: string

datatype head_result = Raised | Response response

text \<open>The truth value of a response object is \<^verbatim>\<open>Response.ok\<close>: false for a status from
  400 to 599.\<close>

definition response_ok :: "response \<Rightarrow> bool" where
  "response_ok res = (\<not> (400 \<le> status_code res \<and> status_code res < 600))"

text \<open>The loop state of \<^verbatim>\<open>find_links\<close>: \<^verbatim>\<open>rv\<close>, \<^verbatim>\<open>rejects\<close> and \<^verbatim>\<open>text\<close>, and the trace of the
  HEAD requests issued so far with what each gave (the network effect, made a value).\<close>

record link_scan =
  ls_rv :: "response list"
  ls_rejects :: "string set"
  ls_text :: string
  ls_requests :: "(string \<times> head_result) list"

definition c_schemed :: "string \<Rightarrow> string" where
  "c_schemed c = (if take 4 c \<noteq> ''http'' then ''http://'' @ c else c)"

text \<open>The network is a parameter: \<open>head n u\<close> is the outcome of the HEAD request for \<open>u\<close>
  when \<open>n\<close> requests were issued before it in this call, so that two requests for one URL
  need not agree.\<close>

fun links_loop :: "(nat \<Rightarrow> string \<Rightarrow> head_result) \<Rightarrow> link_scan \<Rightarrow> string list
                   \<Rightarrow> py_error + link_scan" where
  "links_loop head st [] = Inr st"
| "links_loop head st (c # cs) =
     (if c_schemed c \<in> ls_rejects st then links_loop head st cs
      else
        (case head (length (ls_requests st)) (c_schemed c) of
           Raised \<Rightarrow>
             links_loop head
               (st\<lparr>ls_rejects := insert (c_schemed c) (ls_rejects st),
                   ls_requests := ls_requests st @ [(c_schemed c, Raised)]\<rparr>) cs
         | Response res \<Rightarrow>
             if response_ok res \<and> status_code res < 400
             then
               (case str_index (ls_text st) c of
                  None \<Rightarrow> Inl ValueError
                | Some i \<Rightarrow>
                    links_loop head
                      (st\<lparr>ls_rv := ls_rv st @ [res],
                          ls_text := (if i + length c = length (rstrip (ls_text st))
                                      then str_replace (ls_text st) c []
                                      else ls_text st),
                          ls_requests := ls_requests st @ [(c_schemed c, Response res)]\<rparr>) cs)
             else
               links_loop head
                 (st\<lparr>ls_requests := ls_requests st @ [(c_schemed c, Response res)]\<rparr>) cs))"

definition find_links :: "(nat \<Rightarrow> string \<Rightarrow> head_result) \<Rightarrow> string \<Rightarrow> py_error + link_scan" where
  "find_links head txt =
     links_loop head \<lparr>ls_rv = [], ls_rejects = {}, ls_text = txt, ls_requests = []\<rparr>
       (rev (findall_links txt))"

section \<open>\<^verbatim>\<open>process_attachments\<close>\<close>

text \<open>
  Percept objects live in a store; the position of an object in the store is its
  identity, so that "the same instance" is equality of positions. The classes are those
  of \<^verbatim>\<open>nucleus/content.py\<close>, which is not among the sources; only what
  \<^verbatim>\<open>process_attachments\<close> passes to them is kept: a link's URL and title, a picture's URL,
  a tag's title, a mention's identity and text.
\<close>

datatype percept =
    LinkPercept string "string option"
  | LinkedPicturePercept string
  | TagPercept string
  | Mention string string

fun first_index :: "('a \<Rightarrow> bool) \<Rightarrow> 'a list \<Rightarrow> nat option" where
  "first_index P [] = None"
| "first_index P (x # xs) = (if P x then Some 0 else map_option Suc (first_index P xs))"

fun is_link :: "string \<Rightarrow> percept \<Rightarrow> bool" where
  "is_link u (LinkPercept v t) = (u = v)"
| "is_link u p = False"

fun is_picture :: "string \<Rightarrow> percept \<Rightarrow> bool" where
  "is_picture u (LinkedPicturePercept v) = (u = v)"
| "is_picture u p = False"

text \<open>
  Modelled from the spec: \<^verbatim>\<open>LinkPercept.get_or_create\<close> and
  \<^verbatim>\<open>LinkedPicturePercept.get_or_create\<close> are defined in \<^verbatim>\<open>nucleus/content.py\<close>, which is
  missing. The spec describes them as a get-or-create keyed on the canonical URL:
  fetch the stored percept of that variant with that URL, insert one if there is none.
  The result is the object, whether it was created by this call (what
  \<^verbatim>\<open>inspect(linkpercept).transient\<close> tells the caller), and the store.
\<close>

definition get_or_create_link :: "string \<Rightarrow> percept list \<Rightarrow> nat \<times> bool \<times> percept list" where
  "get_or_create_link u store =
     (case first_index (is_link u) store of
        Some i \<Rightarrow> (i, False, store)
      | None \<Rightarrow> (length store, True, store @ [LinkPercept u None]))"

definition get_or_create_picture :: "string \<Rightarrow> percept list \<Rightarrow> nat \<times> bool \<times> percept list" where
  "get_or_create_picture u store =
     (case first_index (is_picture u) store of
        Some i \<Rightarrow> (i, False, store)
      | None \<Rightarrow> (length store, True, store @ [LinkedPicturePercept u]))"

text \<open>A constructor call (\<^verbatim>\<open>content.TagPercept(title=tag)\<close>,
  \<^verbatim>\<open>content.Mention(identity=ident, text=mention_text)\<close>) makes a new object, which
  \<^verbatim>\<open>percepts.add\<close> then puts into the set.\<close>

definition add_new :: "percept \<Rightarrow> nat set \<times> percept list \<Rightarrow> nat set \<times> percept list" where
  "add_new p acc = (insert (length (snd acc)) (fst acc), snd acc @ [p])"

record page =
  pg_title :: string
  pg_cleaned_text :: string

text \<open>The collaborators of \<^verbatim>\<open>process_attachments\<close>: the network (\<^verbatim>\<open>requests.head\<close>),
  the identity table, and the page extractor \<^verbatim>\<open>Goose().extract\<close>, which may raise.\<close>

record env =
  env_head :: "nat \<Rightarrow> string \<Rightarrow> head_result"
  env_lookup :: "string \<Rightarrow> string option"
  env_extract :: "string \<Rightarrow> py_error + page"

text \<open>\<^verbatim>\<open>link.url[(link.url.rfind('/') + 1):]\<close>\<close>

definition url_tail :: "string \<Rightarrow> string" where
  "url_tail u = rev (takeWhile (\<lambda>c. c \<noteq> CHR ''/'') (rev u))"

definition is_image :: "response \<Rightarrow> bool" where
  "is_image link = (case content_type link of None \<Rightarrow> False | Some ct \<Rightarrow> take 5 ct = ''image'')"

text \<open>The loop \<^verbatim>\<open>for link in links\<close>; its state is \<^verbatim>\<open>text\<close>, \<^verbatim>\<open>percepts\<close> and the store.\<close>

fun attach_links :: "(string \<Rightarrow> py_error + page) \<Rightarrow> response list
                     \<Rightarrow> string \<times> nat set \<times> percept list
                     \<Rightarrow> py_error + (string \<times> nat set \<times> percept list)" where
  "attach_links extract [] acc = Inr acc"
| "attach_links extract (link # links) (txt, percepts, store) =
     (if is_image link
      then
        (case get_or_create_picture (url link) store of
           (linkpercept, created, store1) \<Rightarrow>
             attach_links extract links
               (if length txt = 0 then url_tail (url link) else txt,
                insert linkpercept percepts, store1))
      else
        (case get_or_create_link (url link) store of
           (linkpercept, created, store1) \<Rightarrow>
             (case extract (url link) of
                Inl e \<Rightarrow> Inl e
              | Inr pg \<Rightarrow>
                  attach_links extract links
                    (if length txt = 0 then pg_title pg else txt,
                     insert linkpercept percepts,
                     if created
                     then store1[linkpercept := LinkPercept (url link) (Some (pg_title pg))]
                     else store1))))"

definition process_attachments :: "env \<Rightarrow> percept list \<Rightarrow> string
                                   \<Rightarrow> py_error + (string \<times> nat set \<times> percept list)" where
  "process_attachments e store txt =
     (case find_tags txt of
        Inl err \<Rightarrow> Inl err
      | Inr (tags, txt1) \<Rightarrow>
          (let acc1 = fold (\<lambda>tag. add_new (TagPercept tag)) tags ({}, store);
               mentions = find_mentions (env_lookup e) txt1;
               acc2 = fold (\<lambda>(mention_text, ident). add_new (Mention ident mention_text))
                        mentions acc1
           in case find_links (env_head e) txt1 of
                Inl err \<Rightarrow> Inl err
              | Inr st \<Rightarrow>
                  attach_links (env_extract e) (ls_rv st) (ls_text st, fst acc2, snd acc2)))"

section \<open>Identities, memberships and the cache (\<^verbatim>\<open>nucleus/identity.py\<close>)\<close>

text \<open>
  Rows are records, tables are lists in storage order (what \<^verbatim>\<open>.first()\<close> returns is the
  first row that passes the filters), identifiers are the 32-character strings of the
  code. \<^verbatim>\<open>MovementMemberAssociation.persona_id\<close> and \<^verbatim>\<open>invitation_code\<close> are nullable;
  \<^verbatim>\<open>active\<close> is stored with its column default and is taken as a truth value.
\<close>

type_synonym ident = string

record mma =
  mma_movement_id :: ident
  mma_persona_id :: "ident option"
  mma_active :: bool
  mma_role :: string
  mma_invitation_code :: "string option"

record movement =
  mv_id :: ident
  mv_username :: string
  mv_private :: bool
  mv_admin_id :: "ident option"
  mv_blog_id :: ident
  mv_mindspace_id :: ident

text \<open>A content node (\<^verbatim>\<open>Thought\<close>) and a collection (\<^verbatim>\<open>Mindset\<close>), with the attributes
  \<^verbatim>\<open>promotion_check\<close> reads and writes.\<close>

record thought =
  th_author :: ident
  th_parent :: "ident option"
  th_mindset_id :: "ident option"
  th_kind :: string
  th_state :: int
  th_blogged :: bool
  th_text :: string
  th_children :: "ident list"

record mindset =
  ms_kind :: string
  ms_author :: ident

text \<open>\<^verbatim>\<open>current_user\<close> of flask-login, the ambient login context: anonymous, or a user
  with its \<^verbatim>\<open>active_persona\<close> (which is nullable).\<close>

datatype login = Anonymous | LoggedIn "ident option"

text \<open>
  Modelled from the spec: the cache service (\<^verbatim>\<open>nucleus/connections.py\<close> and the
  memoizing decorator are missing) is a key/value store with \<open>get\<close>, \<open>set\<close> and
  \<open>delete\<close>, and \<^verbatim>\<open>memoize\<close> derives the key from the function and its arguments; for
  the memoized methods here the only argument is the instance. Expiry by age is not
  modelled: an entry may be absent at any time.
\<close>

datatype cache_key =
    MemberCount ident
  | Movements ident
  | RepostMindsets ident
  | FrontpageSources ident

datatype cache_val =
    CountVal nat
  | MovementList "(ident \<times> string) list"
  | IdList "ident list"

record world =
  w_mmas :: "mma list"
  w_movements :: "movement list"
  w_followed :: "ident \<Rightarrow> ident list"
  w_cache :: "cache_key \<rightharpoonup> cache_val"
  w_login :: login
  w_thoughts :: "ident \<rightharpoonup> thought"
  w_mindsets :: "ident \<rightharpoonup> mindset"
  w_chat :: "(ident \<times> string) list"

definition delete_memoized :: "cache_key \<Rightarrow> world \<Rightarrow> world" where
  "delete_memoized k w = w\<lparr>w_cache := (w_cache w)(k := None)\<rparr>"

subsection \<open>\<^verbatim>\<open>Movement.member_count\<close>, \<^verbatim>\<open>Movement.required_votes\<close>, \<^verbatim>\<open>Movement.active_member\<close>\<close>

definition member_count_query :: "world \<Rightarrow> movement \<Rightarrow> nat" where
  "member_count_query w self =
     length (filter (\<lambda>a. mma_movement_id a = mv_id self \<and> mma_active a) (w_mmas w))"

definition member_count :: "world \<Rightarrow> movement \<Rightarrow> nat \<times> world" where
  "member_count w self =
     (case w_cache w (MemberCount (mv_id self)) of
        Some (CountVal n) \<Rightarrow> (n, w)
      | _ \<Rightarrow> (member_count_query w self,
              w\<lparr>w_cache := (w_cache w)(MemberCount (mv_id self) \<mapsto>
                                CountVal (member_count_query w self))\<rparr>))"

text \<open>Python's \<^verbatim>\<open>int(x)\<close> of a float truncates towards zero. The floats of
  \<^verbatim>\<open>required_votes\<close> are modelled as real numbers, and
  \<^verbatim>\<open>math.log(c, 1.65)\<close> as the quotient of natural logarithms it computes.\<close>

definition py_int :: "real \<Rightarrow> int" where
  "py_int x = (if 0 \<le> x then \<lfloor>x\<rfloor> else \<lceil>x\<rceil>)"

definition required_votes_for :: "nat \<Rightarrow> int" where
  "required_votes_for c =
     (if 0 < c then py_int (real c / 100.0 + 0.8 / real c + ln (real c) / ln 1.65) else 1)"

definition required_votes :: "world \<Rightarrow> movement \<Rightarrow> int \<times> world" where
  "required_votes w self = (case member_count w self of (c, w') \<Rightarrow> (required_votes_for c, w'))"

text \<open>\<^verbatim>\<open>Movement.active_member(persona)\<close> with the persona given.\<close>

definition active_member :: "world \<Rightarrow> movement \<Rightarrow> ident \<Rightarrow> bool" where
  "active_member w self persona =
     list_ex (\<lambda>a. mma_persona_id a = Some persona \<and> mma_active a
                  \<and> mma_movement_id a = mv_id self) (w_mmas w)"

subsection \<open>\<^verbatim>\<open>Persona.movements\<close>\<close>

text \<open>The body of the method: the join of movements and memberships, filtered by
  \<^verbatim>\<open>active\<close> and by \<^verbatim>\<open>current_user.active_persona\<close>, ordered by username. \<open>self\<close> is
  the persona the method is called on.\<close>

definition movements_query :: "world \<Rightarrow> ident \<Rightarrow> py_error + (ident \<times> string) list" where
  "movements_query w self =
     (case w_login w of
        Anonymous \<Rightarrow> Inl AttributeError
      | LoggedIn active_persona \<Rightarrow>
          Inr (map (\<lambda>m. (mv_id m, mv_username m))
                 (sort_key mv_username
                    (filter (\<lambda>m. list_ex (\<lambda>a. mma_movement_id a = mv_id m \<and> mma_active a
                                               \<and> mma_persona_id a = active_persona)
                                         (w_mmas w))
                            (w_movements w)))))"

text \<open>The memoized method: the key is built from the instance.\<close>

definition movements :: "world \<Rightarrow> ident \<Rightarrow> (py_error + (ident \<times> string) list) \<times> world" where
  "movements w self =
     (case w_cache w (Movements self) of
        Some (MovementList rv) \<Rightarrow> (Inr rv, w)
      | _ \<Rightarrow>
          (case movements_query w self of
             Inl e \<Rightarrow> (Inl e, w)
           | Inr rv \<Rightarrow> (Inr rv, w\<lparr>w_cache := (w_cache w)(Movements self \<mapsto> MovementList rv)\<rparr>)))"

subsection \<open>\<^verbatim>\<open>Persona.toggle_following\<close> and \<^verbatim>\<open>Persona.toggle_movement_membership\<close>\<close>

definition toggle_following :: "world \<Rightarrow> ident \<Rightarrow> ident \<Rightarrow> bool \<times> world" where
  "toggle_following w self ident =
     (if ident \<in> set (w_followed w self)
      then (False, delete_memoized (FrontpageSources self)
                     (w\<lparr>w_followed := (w_followed w)(self := remove1 ident (w_followed w self))\<rparr>))
      else (True, delete_memoized (FrontpageSources self)
                    (w\<lparr>w_followed := (w_followed w)(self := w_followed w self @ [ident])\<rparr>)))"

text \<open>The membership row the method works on: by invitation code when one is given,
  else by movement and persona.\<close>

definition find_mma :: "world \<Rightarrow> ident \<Rightarrow> movement \<Rightarrow> string option \<Rightarrow> nat option" where
  "find_mma w self mv invitation_code =
     (if invitation_code \<noteq> None \<and> 0 < length (the invitation_code)
      then first_index (\<lambda>a. mma_invitation_code a = invitation_code) (w_mmas w)
      else first_index (\<lambda>a. mma_movement_id a = mv_id mv \<and> mma_persona_id a = Some self)
             (w_mmas w))"

definition reset_caches :: "ident \<Rightarrow> movement \<Rightarrow> world \<Rightarrow> world" where
  "reset_caches self mv w =
     delete_memoized (FrontpageSources self)
       (delete_memoized (RepostMindsets self)
          (delete_memoized (Movements self)
             (delete_memoized (MemberCount (mv_id mv)) w)))"

text \<open>The result is the position of the updated membership row and the new state.\<close>

definition toggle_movement_membership ::
  "world \<Rightarrow> ident \<Rightarrow> movement \<Rightarrow> string \<Rightarrow> string option \<Rightarrow> py_error + (nat \<times> world)" where
  "toggle_movement_membership w self mv role invitation_code =
     (let found = find_mma w self mv invitation_code;
          inactive = (case found of None \<Rightarrow> True | Some i \<Rightarrow> \<not> mma_active (w_mmas w ! i));
          w1 = (if mv_id mv \<notin> set (w_followed w self) \<and> inactive
                then snd (toggle_following w self (mv_id mv)) else w);
          needs_code = (case found of
                          None \<Rightarrow> True
                        | Some i \<Rightarrow> \<not> mma_active (w_mmas w ! i)
                                    \<and> mma_invitation_code (w_mmas w ! i) \<noteq> invitation_code)
      in if needs_code \<and> mv_private mv \<and> w_login w = Anonymous then Inl AttributeError
         else if needs_code \<and> mv_private mv \<and> w_login w \<noteq> LoggedIn (mv_admin_id mv)
         then Inl UnauthorizedError
         else
           (case found of
              None \<Rightarrow>
                Inr (length (w_mmas w1),
                     reset_caches self mv
                       (w1\<lparr>w_mmas := w_mmas w1 @
                             [\<lparr>mma_movement_id = mv_id mv, mma_persona_id = Some self,
                               mma_active = True, mma_role = role,
                               mma_invitation_code = None\<rparr>]\<rparr>))
            | Some i \<Rightarrow>
                if \<not> mma_active (w_mmas w ! i)
                then Inr (i, reset_caches self mv
                               (w1\<lparr>w_mmas := (w_mmas w1)[i := (w_mmas w1 ! i)
                                          \<lparr>mma_active := True, mma_role := role\<rparr>]\<rparr>))
                else if Some self = mv_admin_id mv then Inl NotImplementedError
                else Inr (i, reset_caches self mv
                               (w1\<lparr>w_mmas := (w_mmas w1)[i := (w_mmas w1 ! i)
                                          \<lparr>mma_active := False, mma_role := ''left''\<rparr>]\<rparr>))))"

subsection \<open>\<^verbatim>\<open>Movement.promotion_check\<close>\<close>

text \<open>
  Modelled from the spec: \<^verbatim>\<open>Thought.upvote_count\<close> is defined in
  \<^verbatim>\<open>nucleus/content.py\<close>, which is missing. The spec: the upvote count of a node is the
  count of its active upvote-kind children (a state below 0 is deleted or hidden).
\<close>

definition upvote_count :: "world \<Rightarrow> thought \<Rightarrow> nat" where
  "upvote_count w t =
     length (filter (\<lambda>c. case w_thoughts w c of
                           None \<Rightarrow> False
                         | Some u \<Rightarrow> th_kind u = ''upvote'' \<and> 0 \<le> th_state u)
                    (th_children t))"

text \<open>
  Modelled from the spec: \<^verbatim>\<open>Thought.clone(thought, author, mindset)\<close> is defined in
  \<^verbatim>\<open>nucleus/content.py\<close>, which is missing. The spec and \<^verbatim>\<open>test_clone\<close>: a new node
  with a new identifier, the text of the original, the given author, the original as
  parent, in the given collection.
\<close>

definition clone :: "ident \<Rightarrow> thought \<Rightarrow> ident \<Rightarrow> ident \<Rightarrow> thought" where
  "clone original_id original author ms =
     original\<lparr>th_author := author, th_parent := Some original_id, th_mindset_id := Some ms,
              th_blogged := False, th_children := []\<rparr>"

text \<open>\<^verbatim>\<open>content.Upvote(id=..., author=self, parent=clone, state=0)\<close>\<close>

definition Upvote :: "ident \<Rightarrow> ident \<Rightarrow> thought" where
  "Upvote author parent =
     \<lparr>th_author = author, th_parent = Some parent, th_mindset_id = None,
      th_kind = ''upvote'', th_state = 0, th_blogged = False, th_text = [],
      th_children = []\<rparr>"

text \<open>
  \<open>thought\<close> is the identifier of the node the method is given, \<open>clone_id\<close> and
  \<open>upvote_id\<close> are the two values \<^verbatim>\<open>uuid4().hex\<close> yields during the call. The result is
  the identifier of the new blog post, or \<open>None\<close>.
\<close>

definition promotion_check ::
  "world \<Rightarrow> movement \<Rightarrow> ident \<Rightarrow> ident \<Rightarrow> ident \<Rightarrow> ident option \<times> world" where
  "promotion_check w self thought clone_id upvote_id =
     (case w_thoughts w thought of
        None \<Rightarrow> (None, w)
      | Some t \<Rightarrow>
          if \<not> th_blogged t
             \<and> (case th_mindset_id t of
                  None \<Rightarrow> False
                | Some ms \<Rightarrow> (case w_mindsets w ms of
                               None \<Rightarrow> False
                             | Some m \<Rightarrow> ms_kind m = ''mindspace''))
          then
            (case required_votes w self of
               (req, w1) \<Rightarrow>
                 if req \<le> int (upvote_count w1 t)
                 then
                   (Some clone_id,
                    w1\<lparr>w_thoughts := (w_thoughts w1)
                          (clone_id \<mapsto> (clone thought t (mv_id self) (mv_blog_id self))
                                          \<lparr>th_children := [upvote_id]\<rparr>,
                           upvote_id \<mapsto> Upvote (mv_id self) clone_id,
                           thought \<mapsto> t\<lparr>th_blogged := True,
                                        th_children := th_children t @ [clone_id]\<rparr>),
                        w_chat := w_chat w1 @
                          [(mv_mindspace_id self, ''New promotion! Check the blog'')]\<rparr>)
                 else (None, w1))
          else (None, w))"

section \<open>Notions used to state the properties\<close>








text \<open>
  The movement list of a persona in the words of the docstring of
  \<^verbatim>\<open>Persona.movements\<close> ("movements in which this Persona is an active member", each
  with its id and username), ordered by username; membership is
  \<^verbatim>\<open>Movement.active_member\<close>.
\<close>

definition movement_list_of :: "world \<Rightarrow> ident \<Rightarrow> (ident \<times> string) list" where
  "movement_list_of w persona =
     map (\<lambda>m. (mv_id m, mv_username m))
       (sort_key mv_username (filter (\<lambda>m. active_member w m persona) (w_movements w)))"

section \<open>Concrete inputs\<close>

text \<open>A network on which every HEAD request is answered with the given status and
  content type, a page extractor that returns a page titled \<open>T\<close>, and no identities.\<close>

definition answering :: "nat \<Rightarrow> string option \<Rightarrow> nat \<Rightarrow> string \<Rightarrow> head_result" where
  "answering status ct n u = Response \<lparr>status_code = status, content_type = ct, url = u\<rparr>"

definition web :: env where
  "web = \<lparr>env_head = answering 200 (Some ''text/html''),
           env_lookup = (\<lambda>username. None),
           env_extract = (\<lambda>u. Inr \<lparr>pg_title = ''T'', pg_cleaned_text = []\<rparr>)\<rparr>"

definition empty_world :: world where
  "empty_world =
     \<lparr>w_mmas = [], w_movements = [], w_followed = (\<lambda>p. []), w_cache = Map.empty,
      w_login = Anonymous, w_thoughts = Map.empty, w_mindsets = Map.empty, w_chat = []\<rparr>"

definition club :: movement where
  "club = \<lparr>mv_id = ''club'', mv_username = ''Club'', mv_private = False,
            mv_admin_id = Some ''carol'', mv_blog_id = ''club-blog'',
            mv_mindspace_id = ''club-mindspace''\<rparr>"

definition zoo :: movement where
  "zoo = \<lparr>mv_id = ''zoo'', mv_username = ''Zoo'', mv_private = False,
           mv_admin_id = Some ''carol'', mv_blog_id = ''zoo-blog'',
           mv_mindspace_id = ''zoo-mindspace''\<rparr>"

text \<open>The public movement \<open>club\<close> without members; the persona \<open>alice\<close> is logged in.\<close>

definition membership_world :: world where
  "membership_world =
     empty_world\<lparr>w_movements := [club], w_login := LoggedIn (Some ''alice'')\<rparr>"

text \<open>\<open>alice\<close> is an active member of \<open>club\<close>, \<open>bob\<close> of \<open>zoo\<close>; nothing is cached.\<close>

definition two_clubs_world :: world where
  "two_clubs_world =
     empty_world
       \<lparr>w_mmas := [\<lparr>mma_movement_id = ''club'', mma_persona_id = Some ''alice'',
                    mma_active = True, mma_role = ''member'', mma_invitation_code = None\<rparr>,
                   \<lparr>mma_movement_id = ''zoo'', mma_persona_id = Some ''bob'',
                    mma_active = True, mma_role = ''member'', mma_invitation_code = None\<rparr>],
        w_movements := [club, zoo]\<rparr>"


text \<open>A thought \<open>t1\<close> of \<open>bob\<close> with one upvote by \<open>alice\<close>, in the collection \<open>ms\<close>;
  the collections are the mindspace of \<open>bob\<close> and the mindspace and the blog of \<open>club\<close>,
  which has no members.\<close>

definition bobs_thought :: "ident \<Rightarrow> thought" where
  "bobs_thought ms =
     \<lparr>th_author = ''bob'', th_parent = None, th_mindset_id = Some ms,
      th_kind = ''thought'', th_state = 0, th_blogged = False, th_text = ''hello'',
      th_children = [''u1'']\<rparr>"

definition promo_world :: "ident \<Rightarrow> world" where
  "promo_world ms =
     empty_world
       \<lparr>w_movements := [club],
        w_thoughts := [''t1'' \<mapsto> bobs_thought ms, ''u1'' \<mapsto> Upvote ''alice'' ''t1''],
        w_mindsets :=
          [''bob-mindspace'' \<mapsto> \<lparr>ms_kind = ''mindspace'', ms_author = ''bob''\<rparr>,
           ''club-mindspace'' \<mapsto> \<lparr>ms_kind = ''mindspace'', ms_author = ''club''\<rparr>,
           ''club-blog'' \<mapsto> \<lparr>ms_kind = ''blog'', ms_author = ''club''\<rparr>]\<rparr>"

section \<open>Strings: occurrences, \<^verbatim>\<open>index\<close>, \<^verbatim>\<open>rstrip\<close>, \<^verbatim>\<open>replace\<close>\<close>









section \<open>The scanners list their matches in textual order\<close>























section \<open>The arithmetic of \<^verbatim>\<open>required_votes\<close>\<close>



lemma log_lower: 
  assumes "1 < b" "0 < x" "b ^ p \<le> x ^ q" "0 < q" "lo * real q \<le> real p"
  shows "lo \<le> log b x"
proof -
  have "log b (b ^ p) \<le> log b (x ^ q)" using assms by (subst log_le_cancel_iff) auto
  then have "real p \<le> real q * log b x" using assms by (simp add: log_nat_power)
  with assms(5) have "lo * real q \<le> log b x * real q" by (simp add: mult.commute)
  then show ?thesis using assms(4) by simp
qed

lemma log_upper: 
  assumes "1 < b" "0 < x" "x ^ q < b ^ p" "0 < q" "real p \<le> hi * real q"
  shows "log b x < hi"
proof -
  have "log b (x ^ q) < log b (b ^ p)" using assms by (subst log_less_cancel_iff) auto
  then have "real q * log b x < real p" using assms by (simp add: log_nat_power)
  with assms(5) have "log b x * real q < hi * real q" by (simp add: mult.commute)
  then show ?thesis using assms(4) by simp
qed









text \<open>The seven values do not hang on the last digits of a floating-point evaluation:
  any result within 1/1000 of the real value of the sum truncates to the same integer.\<close>

lemma perturbed_votes_between:
  assumes "lo \<le> log 1.65 (real c)" "log 1.65 (real c) < hi"
    and "of_int n \<le> real c / 100 + 0.8 / real c + lo - d"
    and "real c / 100 + 0.8 / real c + hi + d \<le> of_int n + 1"
    and "\<bar>e\<bar> \<le> d" "0 \<le> n"
  shows "py_int (real c / 100 + 0.8 / real c + ln (real c) / ln 1.65 + e) = n"
proof -
  let ?x = "real c / 100 + 0.8 / real c + log 1.65 (real c) + e"
  have "of_int n \<le> ?x" "?x < of_int n + 1" using assms(1-5) by linarith+
  then have "\<lfloor>?x\<rfloor> = n" by (simp add: floor_eq_iff)
  moreover have "0 \<le> ?x" using \<open>of_int n \<le> ?x\<close> assms(6) by linarith
  ultimately show ?thesis by (simp add: py_int_def log_def)
qed

lemma required_votes_robust:
  assumes e: "\<bar>e\<bar> \<le> 1 / 1000"
  shows "map (\<lambda>c. py_int (real c / 100 + 0.8 / real c + ln (real c) / ln 1.65 + e))
           [1, 2, 5, 10, 50, 100, 500]
         = [0, 1, 3, 4, 8, 10, 17]"
proof -
  have "py_int (real 1 / 100 + 0.8 / real 1 + ln (real 1) / ln 1.65 + e) = 0"
  proof (rule perturbed_votes_between[where d = "1 / 1000", OF _ _ _ _ e])
    show "(0::real) \<le> log 1.65 (real 1)" by simp
    show "log 1.65 (real 1) < 1 / 10" by simp
  qed simp_all
  moreover have "py_int (real 2 / 100 + 0.8 / real 2 + ln (real 2) / ln 1.65 + e) = 1"
  proof (rule perturbed_votes_between[where d = "1 / 1000", OF _ _ _ _ e])
    show "(1::real) \<le> log 1.65 (real 2)"
      by (rule log_lower[where p=1 and q=1]) (simp_all add: power_divide)
    show "log 1.65 (real 2) < 3 / 2"
      by (rule log_upper[where p=3 and q=2]) (simp_all add: power_divide)
  qed simp_all
  moreover have "py_int (real 5 / 100 + 0.8 / real 5 + ln (real 5) / ln 1.65 + e) = 3"
  proof (rule perturbed_votes_between[where d = "1 / 1000", OF _ _ _ _ e])
    show "(3::real) \<le> log 1.65 (real 5)"
      by (rule log_lower[where p=3 and q=1]) (simp_all add: power_divide)
    show "log 1.65 (real 5) < 7 / 2"
      by (rule log_upper[where p=7 and q=2]) (simp_all add: power_divide)
  qed simp_all
  moreover have "py_int (real 10 / 100 + 0.8 / real 10 + ln (real 10) / ln 1.65 + e) = 4"
  proof (rule perturbed_votes_between[where d = "1 / 1000", OF _ _ _ _ e])
    show "(4::real) \<le> log 1.65 (real 10)"
      by (rule log_lower[where p=4 and q=1]) (simp_all add: power_divide)
    show "log 1.65 (real 10) < 19 / 4"
      by (rule log_upper[where p=19 and q=4]) (simp_all add: power_divide)
  qed simp_all
  moreover have "py_int (real 50 / 100 + 0.8 / real 50 + ln (real 50) / ln 1.65 + e) = 8"
  proof (rule perturbed_votes_between[where d = "1 / 1000", OF _ _ _ _ e])
    show "(15 / 2::real) \<le> log 1.65 (real 50)"
      by (rule log_lower[where p=15 and q=2]) (simp_all add: power_divide)
    show "log 1.65 (real 50) < 8"
      by (rule log_upper[where p=8 and q=1]) (simp_all add: power_divide)
  qed simp_all
  moreover have "py_int (real 100 / 100 + 0.8 / real 100 + ln (real 100) / ln 1.65 + e) = 10"
  proof (rule perturbed_votes_between[where d = "1 / 1000", OF _ _ _ _ e])
    show "(9::real) \<le> log 1.65 (real 100)"
      by (rule log_lower[where p=9 and q=1]) (simp_all add: power_divide)
    show "log 1.65 (real 100) < 19 / 2"
      by (rule log_upper[where p=19 and q=2]) (simp_all add: power_divide)
  qed simp_all
  moreover have "py_int (real 500 / 100 + 0.8 / real 500 + ln (real 500) / ln 1.65 + e) = 17"
  proof (rule perturbed_votes_between[where d = "1 / 1000", OF _ _ _ _ e])
    show "(12::real) \<le> log 1.65 (real 500)"
      by (rule log_lower[where p=12 and q=1]) (simp_all add: power_divide)
    show "log 1.65 (real 500) < 25 / 2"
      by (rule log_upper[where p=25 and q=2]) (simp_all add: power_divide)
  qed simp_all
  ultimately show ?thesis by (simp only: list.map)
qed

section \<open>Facts about the identity model\<close>

lemma movements_query_login:
  "movements_query (w\<lparr>w_login := LoggedIn (Some a)\<rparr>) p = Inr (movement_list_of w a)"
proof -
  have "(\<lambda>m. list_ex (\<lambda>x. mma_movement_id x = mv_id m \<and> mma_active x
                            \<and> mma_persona_id x = Some a) (w_mmas w))
        = (\<lambda>m. active_member w m a)"
    by (auto simp: active_member_def list_ex_iff)
  then show ?thesis by (simp add: movements_query_def movement_list_of_def)
qed

lemma member_count_thoughts [simp]: "w_thoughts (snd (member_count w mv)) = w_thoughts w"
  by (simp add: member_count_def split: option.splits cache_val.splits)

lemma required_votes_thoughts [simp]: "w_thoughts (snd (required_votes w mv)) = w_thoughts w"
  by (simp add: required_votes_def split: prod.splits) (metis member_count_thoughts snd_conv)

lemma member_count_chat [simp]: "w_chat (snd (member_count w mv)) = w_chat w"
  by (simp add: member_count_def split: option.splits cache_val.splits)

lemma required_votes_chat [simp]: "w_chat (snd (required_votes w mv)) = w_chat w"
  by (simp add: required_votes_def split: prod.splits) (metis member_count_chat snd_conv)

lemma upvote_count_cong: "w_thoughts w1 = w_thoughts w \<Longrightarrow> upvote_count w1 t = upvote_count w t"
  by (simp add: upvote_count_def)

text \<open>Whenever \<^verbatim>\<open>toggle_movement_membership\<close> returns, the four cache entries the
  method resets are gone.\<close>

lemma toggle_resets_caches:
  assumes "toggle_movement_membership w self mv role code = Inr (i, w')"
  shows "w_cache w' (MemberCount (mv_id mv)) = None \<and> w_cache w' (Movements self) = None
         \<and> w_cache w' (RepostMindsets self) = None \<and> w_cache w' (FrontpageSources self) = None"
  using assms
  by (auto simp: toggle_movement_membership_def reset_caches_def delete_memoized_def Let_def
      split: if_splits option.splits)

text \<open>A call does not change the login; so when the persona the method is called on is
  the one logged in, the read that follows gives the movement list of that persona as
  it is after the call. A persona that had no membership row is an active member
  afterwards.\<close>

lemma toggle_keeps_login:
  assumes "toggle_movement_membership w self mv role code = Inr (i, w')"
  shows "w_login w' = w_login w"
  using assms
  by (auto simp: toggle_movement_membership_def reset_caches_def delete_memoized_def
      toggle_following_def Let_def split: if_splits option.splits)

lemma toggle_then_read_by_login:
  assumes tg: "toggle_movement_membership w self mv role code = Inr (i, w')"
    and login: "w_login w = LoggedIn (Some self)"
  shows "fst (movements w' self) = Inr (movement_list_of w' self)"
proof -
  have "w_cache w' (Movements self) = None" using toggle_resets_caches[OF tg] by simp
  moreover have "w' = w'\<lparr>w_login := LoggedIn (Some self)\<rparr>"
    using toggle_keeps_login[OF tg] login by simp
  then have "movements_query w' self = Inr (movement_list_of w' self)"
    using movements_query_login[of self w' self] by simp
  ultimately show ?thesis by (simp add: movements_def)
qed

lemma toggle_join_active:
  assumes "toggle_movement_membership w self mv role None = Inr (i, w')"
    and "find_mma w self mv None = None"
  shows "active_member w' mv self"
  using assms
  by (auto simp: toggle_movement_membership_def reset_caches_def delete_memoized_def
      toggle_following_def active_member_def Let_def split: if_splits)

text \<open>The text \<^verbatim>\<open>find_tags\<close> returns is empty only if the text it was given is.\<close>

lemma find_tags_nonempty: "find_tags txt = Inr (tags, t) \<Longrightarrow> txt \<noteq> [] \<Longrightarrow> t \<noteq> []"
  by (auto simp: find_tags_def Let_def split: sum.splits if_splits)

section \<open>The claims about \<^verbatim>\<open>find_tags\<close>\<close>



text \<open>
  Claim C5: for every text with a trailing tag \<^verbatim>\<open>#x\<close>, \<^verbatim>\<open>find_tags\<close> returns \<open>x\<close> in
  its tag list and a text with \<^verbatim>\<open>#x\<close> removed from the tail, unless that would empty
  the text. The code tests \<^verbatim>\<open>text_new.index(tag) + len(tag) == len(text_new.rstrip())\<close>,
  and \<^verbatim>\<open>index\<close> finds the first occurrence of the tag's characters, with or without
  a hash sign before them: in \<^verbatim>\<open>cats #cat\<close> the tag \<open>cat\<close> stands at the end, its
  removal would leave \<^verbatim>\<open>cats \<close>, and the text comes back unchanged.
\<close>

theorem find_tags_keeps_trailing_tag:
  "find_tags ''cats #cat'' = Inr ([''cat''], ''cats #cat'')"
  by code_simp

section \<open>The claims about \<^verbatim>\<open>find_links\<close>\<close>





section \<open>The claims about \<^verbatim>\<open>process_attachments\<close>\<close>

text \<open>
  Claim C3: two extraction runs that yield the same URL or the same tag string resolve
  to the same stored percept. Links go through \<^verbatim>\<open>get_or_create\<close>; tags are built with
  the constructor \<^verbatim>\<open>content.TagPercept(title=tag)\<close>. Two runs over the text
  \<^verbatim>\<open>x #t http://a.bc\<close>, the second on the store the first has left: the link percept
  is the object at position 1 both times, the tag percept is the object at position 0
  in the first run and a new object, at position 2, in the second.
\<close>

theorem process_attachments_duplicates_tag:
  "process_attachments web [] ''x #t http://a.bc''
     = Inr (''x #t '', {0, 1}, [TagPercept ''t'', LinkPercept ''http://a.bc'' (Some ''T'')])
   \<and> process_attachments web [TagPercept ''t'', LinkPercept ''http://a.bc'' (Some ''T'')]
        ''x #t http://a.bc''
     = Inr (''x #t '', {2, 1},
            [TagPercept ''t'', LinkPercept ''http://a.bc'' (Some ''T''), TagPercept ''t''])"
  by code_simp

text \<open>
  Claim C7: a failure during the link existence check or during the metadata fetch is
  recovered locally and nothing is raised to the caller of \<^verbatim>\<open>process_attachments\<close>.
  The HEAD request stands in a \<^verbatim>\<open>try\<close> block; \<^verbatim>\<open>g.extract(url=link.url)\<close> does not.
  For the text \<^verbatim>\<open>see http://a.bc\<close>: when the HEAD request is answered and the page
  extractor raises, \<^verbatim>\<open>process_attachments\<close> raises; when the HEAD request raises, the
  candidate is dropped and the call returns.
\<close>

theorem process_attachments_raises_on_failed_fetch:
  "process_attachments (web\<lparr>env_extract := (\<lambda>u. Inl ExtractorError)\<rparr>) [] ''see http://a.bc''
     = Inl ExtractorError
   \<and> process_attachments (web\<lparr>env_head := (\<lambda>n u. Raised)\<rparr>) [] ''see http://a.bc''
     = Inr (''see http://a.bc'', {}, [])"
  by code_simp

section \<open>The claims about \<^verbatim>\<open>required_votes\<close> and \<^verbatim>\<open>promotion_check\<close>\<close>



text \<open>
  Claim C1, as the specification states it: \<^verbatim>\<open>promotion_check\<close> fires only if the
  container of the node is the mindspace of the movement. The code tests
  \<^verbatim>\<open>thought.mindset.kind == "mindspace"\<close>, the kind of the container and not whose it
  is: a thought in the mindspace of \<open>bob\<close> with one upvote is promoted to the blog of
  \<open>club\<close> (which has no members and so requires one vote).
\<close>

theorem promotion_check_foreign_mindspace:
  "map_option th_mindset_id (w_thoughts (promo_world ''bob-mindspace'') ''t1'')
     = Some (Some ''bob-mindspace'')
   \<and> mv_mindspace_id club = ''club-mindspace''
   \<and> fst (promotion_check (promo_world ''bob-mindspace'') club ''t1'' ''c1'' ''u2'') = Some ''c1''"
  by (simp add: promotion_check_def promo_world_def bobs_thought_def empty_world_def club_def
      required_votes_def member_count_def member_count_query_def required_votes_for_def
      upvote_count_def Upvote_def)

text \<open>
  Claim C1, amended: for every node of the store, every movement and fresh identifiers
  for the clone and its upvote, \<^verbatim>\<open>promotion_check\<close> fires exactly if the node has not
  been promoted, it has a container, the kind of that container is \<open>mindspace\<close> (it
  need not be the mindspace of this movement), and its upvote count is at least the
  required votes of the movement. When it fires it returns the clone, which is in the
  blog of the movement, has the text of the original, the movement as author and the
  original as parent and carries an upvote of the movement; the original is marked as
  promoted and the event is sent. Otherwise it returns nothing and changes no node.
  In both cases every node that was marked as promoted before the call is so after it.
\<close>

theorem promotion_check_behaviour:
  assumes t: "w_thoughts w thought = Some t"
    and fresh: "clone_id \<notin> dom (w_thoughts w)" "upvote_id \<notin> dom (w_thoughts w)"
      "clone_id \<noteq> upvote_id"
  shows "(case promotion_check w self thought clone_id upvote_id of
            (rv, w') \<Rightarrow>
              (if \<not> th_blogged t
                  \<and> (\<exists>ms m. th_mindset_id t = Some ms \<and> w_mindsets w ms = Some m
                             \<and> ms_kind m = ''mindspace'')
                  \<and> fst (required_votes w self) \<le> int (upvote_count w t)
               then rv = Some clone_id
                  \<and> w_thoughts w' clone_id =
                      Some (t\<lparr>th_author := mv_id self, th_parent := Some thought,
                              th_mindset_id := Some (mv_blog_id self), th_blogged := False,
                              th_children := [upvote_id]\<rparr>)
                  \<and> w_thoughts w' upvote_id =
                      Some \<lparr>th_author = mv_id self, th_parent = Some clone_id,
                            th_mindset_id = None, th_kind = ''upvote'', th_state = 0,
                            th_blogged = False, th_text = [], th_children = []\<rparr>
                  \<and> map_option th_blogged (w_thoughts w' thought) = Some True
                  \<and> w_chat w' = w_chat w @
                        [(mv_mindspace_id self, ''New promotion! Check the blog'')]
               else rv = None \<and> w_thoughts w' = w_thoughts w \<and> w_chat w' = w_chat w)
              \<and> (\<forall>x y. w_thoughts w x = Some y \<and> th_blogged y
                        \<longrightarrow> (\<exists>y'. w_thoughts w' x = Some y' \<and> th_blogged y')))"
proof -
  obtain req w1 where rq: "required_votes w self = (req, w1)" by (cases "required_votes w self")
  then have "w1 = snd (required_votes w self)" by simp
  then have w1: "w_thoughts w1 = w_thoughts w" "w_chat w1 = w_chat w" by simp_all
  have uc: "upvote_count w1 t = upvote_count w t" using w1(1) by (rule upvote_count_cong)
  have ne: "thought \<noteq> clone_id" "thought \<noteq> upvote_id" using t fresh by auto
  let ?guard = "\<not> th_blogged t
                  \<and> (\<exists>ms m. th_mindset_id t = Some ms \<and> w_mindsets w ms = Some m
                             \<and> ms_kind m = ''mindspace'')"
  have guard: "?guard \<longleftrightarrow> (\<not> th_blogged t
             \<and> (case th_mindset_id t of
                  None \<Rightarrow> False
                | Some ms \<Rightarrow> (case w_mindsets w ms of
                               None \<Rightarrow> False
                             | Some m \<Rightarrow> ms_kind m = ''mindspace'')))"
    by (auto split: option.splits)
  show ?thesis
  proof (cases "?guard \<and> req \<le> int (upvote_count w t)")
    case True
    then have g: "\<not> th_blogged t
             \<and> (case th_mindset_id t of
                  None \<Rightarrow> False
                | Some ms \<Rightarrow> (case w_mindsets w ms of
                               None \<Rightarrow> False
                             | Some m \<Rightarrow> ms_kind m = ''mindspace''))"
      using guard by blast
    define w' where "w' =
         w1\<lparr>w_thoughts := (w_thoughts w1)
               (clone_id \<mapsto> (clone thought t (mv_id self) (mv_blog_id self))
                               \<lparr>th_children := [upvote_id]\<rparr>,
                upvote_id \<mapsto> Upvote (mv_id self) clone_id,
                thought \<mapsto> t\<lparr>th_blogged := True,
                             th_children := th_children t @ [clone_id]\<rparr>),
             w_chat := w_chat w1 @
               [(mv_mindspace_id self, ''New promotion! Check the blog'')]\<rparr>"
    have pc: "promotion_check w self thought clone_id upvote_id = (Some clone_id, w')"
      using t g rq uc True by (simp add: promotion_check_def w'_def)
    have c1: "w_thoughts w' clone_id =
                Some (t\<lparr>th_author := mv_id self, th_parent := Some thought,
                        th_mindset_id := Some (mv_blog_id self), th_blogged := False,
                        th_children := [upvote_id]\<rparr>)"
      using ne fresh(3) by (simp add: w'_def clone_def)
    have c2: "w_thoughts w' upvote_id =
                Some \<lparr>th_author = mv_id self, th_parent = Some clone_id,
                      th_mindset_id = None, th_kind = ''upvote'', th_state = 0,
                      th_blogged = False, th_text = [], th_children = []\<rparr>"
      using ne by (simp add: w'_def Upvote_def)
    have c3: "map_option th_blogged (w_thoughts w' thought) = Some True"
      by (simp add: w'_def)
    have c4: "w_chat w' = w_chat w @
                [(mv_mindspace_id self, ''New promotion! Check the blog'')]"
      by (simp add: w'_def w1)
    have c5: "\<forall>x y. w_thoughts w x = Some y \<and> th_blogged y
                \<longrightarrow> (\<exists>y'. w_thoughts w' x = Some y' \<and> th_blogged y')"
    proof (intro allI impI)
      fix x y
      assume xy: "w_thoughts w x = Some y \<and> th_blogged y"
      with fresh have "x \<noteq> clone_id" "x \<noteq> upvote_id" by auto
      with xy show "\<exists>y'. w_thoughts w' x = Some y' \<and> th_blogged y'"
        by (simp add: w'_def w1)
    qed
    from True rq have cond: "?guard \<and> fst (required_votes w self) \<le> int (upvote_count w t)"
      by simp
    show ?thesis unfolding pc prod.case using cond c1 c2 c3 c4 c5 by simp
  next
    case False
    from False rq have cond: "\<not> (?guard \<and> fst (required_votes w self) \<le> int (upvote_count w t))"
      by simp
    have "promotion_check w self thought clone_id upvote_id = (None, w)
             \<or> promotion_check w self thought clone_id upvote_id = (None, w1)"
      using t rq uc guard False by (auto simp: promotion_check_def)
    then show ?thesis
    proof
      assume pc: "promotion_check w self thought clone_id upvote_id = (None, w)"
      show ?thesis unfolding pc prod.case using cond by simp
    next
      assume pc: "promotion_check w self thought clone_id upvote_id = (None, w1)"
      show ?thesis unfolding pc prod.case using cond w1 by simp
    qed
  qed
qed

text \<open>The thought of \<open>bob\<close> in the mindspace of \<open>club\<close>, with its one upvote, is promoted:
  the call returns the clone, the clone is in the blog of \<open>club\<close>, the original is
  marked.\<close>

theorem promotion_check_behaviour_witness:
  "w_thoughts (promo_world ''club-mindspace'') ''t1'' = Some (bobs_thought ''club-mindspace'')
   \<and> ''c1'' \<notin> dom (w_thoughts (promo_world ''club-mindspace''))
   \<and> ''u2'' \<notin> dom (w_thoughts (promo_world ''club-mindspace''))
   \<and> ''c1'' \<noteq> ''u2''
   \<and> fst (promotion_check (promo_world ''club-mindspace'') club ''t1'' ''c1'' ''u2'') = Some ''c1''
   \<and> map_option th_blogged
        (w_thoughts (snd (promotion_check (promo_world ''club-mindspace'') club ''t1'' ''c1'' ''u2''))
           ''t1'') = Some True
   \<and> map_option th_mindset_id
        (w_thoughts (snd (promotion_check (promo_world ''club-mindspace'') club ''t1'' ''c1'' ''u2''))
           ''c1'') = Some (Some ''club-blog'')"
  using promotion_check_behaviour[of "promo_world ''club-mindspace''" "''t1''"
      "bobs_thought ''club-mindspace''" "''c1''" "''u2''" club]
  by (simp add: promotion_check_def promo_world_def bobs_thought_def empty_world_def club_def
      required_votes_def member_count_def member_count_query_def required_votes_for_def
      upvote_count_def Upvote_def clone_def)

section \<open>The claims about \<^verbatim>\<open>movements\<close> and \<^verbatim>\<open>toggle_movement_membership\<close>\<close>

text \<open>
  Claim C10: \<^verbatim>\<open>Persona.movements\<close> takes the memberships of the active persona of the
  ambient \<^verbatim>\<open>current_user\<close>, not of the persona \<open>p\<close> it is called on, and memoizes the
  result under a key built from \<open>p\<close>. With the persona \<open>a\<close> logged in, whatever \<open>p\<close> is:
  if the cache holds a movement list under the key of \<open>p\<close> that list is returned, and
  otherwise the movement list of \<open>a\<close> is returned and stored under the key of \<open>p\<close>.
\<close>

theorem movements_reads_ambient_login:
  "movements (w\<lparr>w_login := LoggedIn (Some a)\<rparr>) p =
     (case w_cache w (Movements p) of
        Some (MovementList rv) \<Rightarrow> (Inr rv, w\<lparr>w_login := LoggedIn (Some a)\<rparr>)
      | _ \<Rightarrow> (Inr (movement_list_of w a),
              w\<lparr>w_login := LoggedIn (Some a),
                w_cache := (w_cache w)(Movements p \<mapsto> MovementList (movement_list_of w a))\<rparr>))"
  by (simp add: movements_def movements_query_login split: option.splits cache_val.splits)

text \<open>In a state without cache entries where \<open>alice\<close> is a member of \<open>club\<close> and \<open>bob\<close> of
  \<open>zoo\<close>, the call on \<open>bob\<close> gives the list of \<open>alice\<close> when \<open>alice\<close> is logged in and
  the list of \<open>bob\<close> when \<open>bob\<close> is: two runs with the same arguments differ with the login.\<close>

theorem movements_differ_with_login:
  "fst (movements (two_clubs_world\<lparr>w_login := LoggedIn (Some ''alice'')\<rparr>) ''bob'')
     = Inr [(''club'', ''Club'')]
   \<and> fst (movements (two_clubs_world\<lparr>w_login := LoggedIn (Some ''bob'')\<rparr>) ''bob'')
     = Inr [(''zoo'', ''Zoo'')]
   \<and> movement_list_of two_clubs_world ''bob'' = [(''zoo'', ''Zoo'')]"
  using movements_reads_ambient_login[where w = two_clubs_world and a = "''alice''" and p = "''bob''"]
    movements_reads_ambient_login[where w = two_clubs_world and a = "''bob''" and p = "''bob''"]
  by (simp add: two_clubs_world_def empty_world_def movement_list_of_def active_member_def
      club_def zoo_def)

text \<open>
  Claim C9: a call of \<^verbatim>\<open>toggle_movement_membership\<close> that changes a membership resets
  the caches so that the next read of the cached movement list of the persona reflects
  the new membership. The entries are reset, but the list is recomputed for the active
  persona of the login: with \<open>alice\<close> logged in, \<open>bob\<close> joins \<open>club\<close>; afterwards \<open>bob\<close> is
  an active member, no list is cached for \<open>bob\<close>, and the read on \<open>bob\<close> gives the empty
  list instead of the list with \<open>club\<close>.
\<close>

theorem toggle_membership_not_reflected:
  "(case toggle_movement_membership membership_world ''bob'' club ''member'' None of
      Inl e \<Rightarrow> False
    | Inr (i, w1) \<Rightarrow>
        active_member w1 club ''bob''
        \<and> w_cache w1 (Movements ''bob'') = None
        \<and> fst (movements w1 ''bob'') = Inr []
        \<and> movement_list_of w1 ''bob'' = [(''club'', ''Club'')])"
  by (simp add: toggle_movement_membership_def membership_world_def empty_world_def club_def
      find_mma_def toggle_following_def delete_memoized_def reset_caches_def
      active_member_def movements_def movements_query_def movement_list_of_def Let_def)

end
